theory Spec2Isabelle
  imports Complex_Main "HOL-Library.AList" "HOL-Library.Char_ord"
    "HOL-Library.List_Lexorder" "HOL-Library.Product_Lexorder"
begin

section \<open>Numbers\<close>

text \<open>
  Timestamps and region bounds are Python numbers. They are modelled as rationals, and the
  only non-finite value the regions ever hold, \<open>float('inf')\<close>, as \<open>PInf\<close>. Python compares
  an int with a float exactly, so the order below is the order the code sees. Where the code
  computes with floats, the result is rounded as Python rounds it, see \<open>float_round\<close> below.
\<close>

datatype ext = Fin rat | PInf

instantiation ext :: linorder
begin

fun less_eq_ext :: "ext \<Rightarrow> ext \<Rightarrow> bool" where
  "less_eq_ext (Fin a) (Fin b) = (a \<le> b)"
| "less_eq_ext (Fin a) PInf = True"
| "less_eq_ext PInf (Fin b) = False"
| "less_eq_ext PInf PInf = True"

fun less_ext :: "ext \<Rightarrow> ext \<Rightarrow> bool" where
  "less_ext (Fin a) (Fin b) = (a < b)"
| "less_ext (Fin a) PInf = True"
| "less_ext PInf (Fin b) = False"
| "less_ext PInf PInf = False"

instance
proof
  fix x y z :: ext
  show "(x < y) = (x \<le> y \<and> \<not> y \<le> x)"
    by (cases x; cases y) auto
  show "x \<le> x"
    by (cases x) auto
  show "x \<le> y \<Longrightarrow> y \<le> z \<Longrightarrow> x \<le> z"
    by (cases x; cases y; cases z) auto
  show "x \<le> y \<Longrightarrow> y \<le> x \<Longrightarrow> x = y"
    by (cases x; cases y) auto
  show "x \<le> y \<or> y \<le> x"
    by (cases x; cases y) auto
qed

end

text \<open>Python's \<open>int(x)\<close> on a number: truncation towards zero.\<close>

definition py_int :: "rat \<Rightarrow> int" where
  "py_int x = (if 0 \<le> x then \<lfloor>x\<rfloor> else \<lceil>x\<rceil>)"

text \<open>
  A Python float is an IEEE 754 binary64 number: a finite float is a rational \<open>m * 2^e\<close> with
  an integer \<open>m\<close> of at most 53 bits and \<open>-1074 \<le> e\<close>, of magnitude below \<open>2^1024\<close>. An
  arithmetic operation on floats returns the exact result rounded to the nearest float, a tie
  going to the float with the even \<open>m\<close>. A float literal such as \<open>0.001\<close> denotes the float
  nearest to the decimal number.

  \<open>bit_length n\<close> is the number of binary digits of a positive integer, and
  \<open>binary_exponent x\<close> the integer \<open>e\<close> with \<open>2^e \<le> |x| < 2^(e+1)\<close>, for \<open>x\<close> other than
  \<open>0\<close>: for \<open>|x| = p / q\<close> it is the difference of the bit lengths of \<open>p\<close> and \<open>q\<close>, or one
  less.
\<close>

function bit_length :: "int \<Rightarrow> int" where
  "bit_length n = (if n \<le> 0 then 0 else 1 + bit_length (n div 2))"
  by pat_completeness auto

termination
  by (relation "measure nat") auto

declare bit_length.simps [simp del]

definition binary_exponent :: "rat \<Rightarrow> int" where
  "binary_exponent x =
     (case quotient_of \<bar>x\<bar> of (p, q) \<Rightarrow>
        let d = bit_length p - bit_length q
        in if power_int 2 d \<le> \<bar>x\<bar> then d else d - 1)"

text \<open>Rounding of a rational to the nearest integer, a tie going to the even one.\<close>

definition round_half_even :: "rat \<Rightarrow> int" where
  "round_half_even x =
     (let f = \<lfloor>x\<rfloor>; r = x - of_int f
      in if r < 1 / 2 then f else if r > 1 / 2 then f + 1 else if even f then f else f + 1)"

text \<open>
  Rounding of an exact result to binary64. The floats between \<open>2^e\<close> and \<open>2^(e+1)\<close> are
  the multiples of \<open>2^(e-52)\<close>, and those below \<open>2^(-1022)\<close> the multiples of \<open>2^(-1074)\<close>.
  A result of magnitude \<open>2^1024\<close> or more stands for an infinite float.
\<close>

definition float_round :: "rat \<Rightarrow> rat" where
  "float_round x =
     (if x = 0 then 0
      else let e = max (binary_exponent x) (- 1022);
               ulp = power_int 2 (e - 52)
           in of_int (round_half_even (x / ulp)) * ulp)"

text \<open>
  The rationals that are finite floats: rounding leaves them as they are, and their magnitude
  is below \<open>2^1024\<close>.
\<close>

definition is_float :: "rat \<Rightarrow> bool" where
  "is_float x = (float_round x = x \<and> (x = 0 \<or> binary_exponent x < 1024))"


section \<open>tAPTA.py: regions and the region alphabet\<close>

record Region =
  lower :: rat
  upper :: ext
  lower_inclusive :: bool
  upper_inclusive :: bool

definition mk_Region :: "rat \<Rightarrow> ext \<Rightarrow> bool \<Rightarrow> bool \<Rightarrow> Region" where
  "mk_Region lo hi li ui =
     \<lparr>lower = lo, upper = hi, lower_inclusive = li, upper_inclusive = ui\<rparr>"

text \<open>\<open>Region.contains\<close>.\<close>

definition contains :: "Region \<Rightarrow> rat \<Rightarrow> bool" where
  "contains r v =
     (let lower_check = (if lower_inclusive r then v \<ge> lower r else v > lower r);
          upper_check = (if upper_inclusive r then Fin v \<le> upper r else Fin v < upper r)
      in lower_check \<and> upper_check)"

text \<open>
  \<open>BuildTimedAPTA\<close>, the computation of the maximal constant: the loop over all
  timestamps of \<open>S = S_positive + S_negative\<close>, starting from \<open>kappa = 0\<close>.
\<close>

type_synonym trace = "(string \<times> rat) list"

definition kappa_step :: "int \<Rightarrow> rat \<Rightarrow> int" where
  "kappa_step kappa tau = max kappa (py_int tau + (if tau > of_int (py_int tau) then 1 else 0))"

definition BuildTimedAPTA_kappa :: "trace list \<Rightarrow> trace list \<Rightarrow> int" where
  "BuildTimedAPTA_kappa S_positive S_negative =
     foldl (\<lambda>kappa trace. foldl (\<lambda>k (_, tau). kappa_step k tau) kappa trace)
       0 (S_positive @ S_negative)"

text \<open>
  \<open>BuildTimedAPTA\<close>, the region list: \<open>[0,0]\<close> first, then for \<open>i\<close> in \<open>range(kappa)\<close>
  the two regions \<open>(i, i+1)\<close> and \<open>[i+1, i+1]\<close>, then \<open>(kappa, inf)\<close>.
\<close>

definition regions_step :: "Region list \<Rightarrow> int \<Rightarrow> Region list" where
  "regions_step Regions i =
     Regions @ [mk_Region (of_int i) (Fin (of_int (i + 1))) False False,
                mk_Region (of_int (i + 1)) (Fin (of_int (i + 1))) True True]"

definition BuildTimedAPTA_Regions :: "int \<Rightarrow> Region list" where
  "BuildTimedAPTA_Regions kappa =
     foldl regions_step [mk_Region 0 (Fin 0) True True] (map int [0 ..< nat kappa])
     @ [mk_Region (of_int kappa) PInf False False]"

text \<open>All timestamps of the combined sample set, in the order the loop visits them.\<close>

definition sample_times :: "trace list \<Rightarrow> trace list \<Rightarrow> rat list" where
  "sample_times S_positive S_negative = concat (map (map snd) (S_positive @ S_negative))"


section \<open>Min3RTA.py: merging of regions\<close>

text \<open>\<open>RegionTreeNode._are_regions_adjacent_or_overlapping\<close>.\<close>

definition are_regions_adjacent_or_overlapping :: "Region \<Rightarrow> Region \<Rightarrow> bool" where
  "are_regions_adjacent_or_overlapping region1 region2 =
     (let has_overlap =
            ((Fin (lower region1) \<le> upper region2 \<and> upper region1 \<ge> Fin (lower region2)) \<or>
             (Fin (lower region2) \<le> upper region1 \<and> upper region2 \<ge> Fin (lower region1)));
          is_adjacent =
            ((upper region1 = Fin (lower region2) \<and>
                (upper_inclusive region1 \<or> lower_inclusive region2)) \<or>
             (upper region2 = Fin (lower region1) \<and>
                (upper_inclusive region2 \<or> lower_inclusive region1)))
      in has_overlap \<or> is_adjacent)"

text \<open>\<open>RegionTreeNode._merge_regions\<close>; \<open>None\<close> is Python's \<open>None\<close>.\<close>

definition merge_regions :: "Region \<Rightarrow> Region \<Rightarrow> Region option" where
  "merge_regions region1 region2 =
     (if \<not> are_regions_adjacent_or_overlapping region1 region2 then None
      else
        let lo = min (lower region1) (lower region2);
            hi = max (upper region1) (upper region2);
            li = ((lower region1 = lo \<and> lower_inclusive region1) \<or>
                  (lower region2 = lo \<and> lower_inclusive region2));
            ui = ((upper region1 = hi \<and> upper_inclusive region1) \<or>
                  (upper region2 = hi \<and> upper_inclusive region2))
        in Some (mk_Region lo hi li ui))"


section \<open>Min3RTA.py: the time-to-region mapping of \<open>add_suffix\<close>\<close>

text \<open>
  The body of the loop of \<open>Min3RTA.add_suffix\<close> that builds the region of one
  \<open>(symbol, time)\<close> pair from \<open>time\<close> and \<open>max_time\<close>.

  \<open>is_max_time = abs(time - max_time) < 0.001\<close> is computed in floats: the difference is
  rounded, and \<open>0.001\<close> is the float nearest to \<open>1/1000\<close>. The absolute value and the
  comparison are exact. A difference that overflows is infinite and fails the test, as its
  stand-in of magnitude \<open>2^1024\<close> or more does. When \<open>time\<close> and \<open>max_time\<close> are both
  Python ints the difference is exact, and it passes the test exactly when it is \<open>0\<close>, as
  the rounded difference does.
\<close>

definition is_max_time :: "rat \<Rightarrow> rat \<Rightarrow> bool" where
  "is_max_time time max_time = (\<bar>float_round (time - max_time)\<bar> < float_round (1 / 1000))"

definition add_suffix_region :: "rat \<Rightarrow> rat \<Rightarrow> Region" where
  "add_suffix_region time max_time =
     (let is_integer = (time = of_int (py_int time));
          is_max_time = is_max_time time max_time
      in if is_integer then
           (if is_max_time then mk_Region (of_int (py_int time)) PInf True False
            else mk_Region (of_int (py_int time)) (Fin (of_int (py_int time))) True True)
         else if is_max_time then mk_Region (of_int (py_int time)) PInf False False
         else mk_Region (of_int (py_int time)) (Fin (of_int (py_int time + 1))) False False)"


section \<open>Min3RTA.py: the node store\<close>

text \<open>
  A \<open>RegionTreeNode\<close> object is identified with its \<open>id\<close>: \<open>create_node\<close> is the only
  constructor and hands out fresh ids, so a reference to a node is its id and the store
  \<open>nodes\<close> maps every id to the node's current fields. The dictionary \<open>transitions\<close> is an
  association list in insertion order, keyed by \<open>(symbol, region)\<close>, with the id of the target
  node as value; \<open>children\<close> is the list of the ids of the child objects.
\<close>

record RegionTreeNode =
  is_accepting :: bool
  is_rejecting :: bool
  transitions :: "((string \<times> Region) \<times> nat) list"
  children :: "nat list"
  is_merged :: bool

record Min3RTA =
  nodes :: "nat \<Rightarrow> RegionTreeNode"
  register :: "(nat \<times> nat) list"
  root :: "nat option"
  next_node_id :: nat

definition new_RegionTreeNode :: "bool \<Rightarrow> bool \<Rightarrow> RegionTreeNode" where
  "new_RegionTreeNode acc rej =
     \<lparr>is_accepting = acc, is_rejecting = rej, transitions = [], children = [],
      is_merged = False\<rparr>"

definition new_Min3RTA :: Min3RTA where
  "new_Min3RTA =
     \<lparr>nodes = (\<lambda>_. new_RegionTreeNode False False), register = [], root = None,
      next_node_id = 0\<rparr>"

definition set_node :: "Min3RTA \<Rightarrow> nat \<Rightarrow> RegionTreeNode \<Rightarrow> Min3RTA" where
  "set_node rta i n = rta\<lparr>nodes := (nodes rta)(i := n)\<rparr>"

text \<open>\<open>Min3RTA.create_node\<close>: returns the new id and the updated automaton.\<close>

definition create_node :: "Min3RTA \<Rightarrow> bool \<Rightarrow> bool \<Rightarrow> nat \<times> Min3RTA" where
  "create_node rta acc rej =
     (let node_id = next_node_id rta;
          rta1 = set_node rta node_id (new_RegionTreeNode acc rej);
          rta2 = rta1\<lparr>next_node_id := next_node_id rta1 + 1\<rparr>;
          rta3 = (if root rta2 = None then rta2\<lparr>root := Some node_id\<rparr> else rta2)
      in (node_id, rta3))"

text \<open>\<open>Min3RTA.get_real_node_id\<close>; \<open>get_real_node\<close> is the node stored under that id.\<close>

definition get_real_node_id :: "Min3RTA \<Rightarrow> nat \<Rightarrow> nat" where
  "get_real_node_id rta node_id =
     (case map_of (register rta) node_id of
        Some r \<Rightarrow> if r \<noteq> node_id then r else node_id
      | None \<Rightarrow> node_id)"

text \<open>
  \<open>RegionTreeNode.add_transition\<close>. The loop over the existing transitions computes the
  merged region and then overwrites it with \<open>None\<close>, as the source does; \<open>add_transition_scan\<close>
  returns \<open>Some\<close> of the changed node when the loop returns early, \<open>None\<close> when it runs to
  its end.
\<close>

fun add_transition_scan ::
  "RegionTreeNode \<Rightarrow> string \<Rightarrow> Region \<Rightarrow> nat \<Rightarrow> ((string \<times> Region) \<times> nat) list
     \<Rightarrow> RegionTreeNode option" where
  "add_transition_scan node symbol region target_node [] = None"
| "add_transition_scan node symbol region target_node (((sym', reg), target) # rest) =
     (if sym' = symbol \<and> target = target_node then
        (let merged_region = merge_regions reg region;
             merged_region = (None :: Region option)
         in case merged_region of
              None \<Rightarrow> add_transition_scan node symbol region target_node rest
            | Some m \<Rightarrow>
                Some (node\<lparr>transitions :=
                  AList.update (sym', m) target_node (AList.delete (sym', reg) (transitions node))\<rparr>))
      else add_transition_scan node symbol region target_node rest)"

definition add_transition :: "Min3RTA \<Rightarrow> nat \<Rightarrow> string \<Rightarrow> Region \<Rightarrow> nat \<Rightarrow> Min3RTA" where
  "add_transition rta self_id symbol region target_node =
     (let node = nodes rta self_id
      in case add_transition_scan node symbol region target_node (transitions node) of
           Some node' \<Rightarrow> set_node rta self_id node'
         | None \<Rightarrow>
             (let node1 = node\<lparr>transitions :=
                     AList.update (symbol, region) target_node (transitions node)\<rparr>;
                  node2 = (if target_node \<notin> set (children node1)
                           then node1\<lparr>children := children node1 @ [target_node]\<rparr> else node1)
              in set_node rta self_id node2))"

definition has_children :: "RegionTreeNode \<Rightarrow> bool" where
  "has_children node = (length (children node) > 0)"

definition last_child :: "RegionTreeNode \<Rightarrow> nat option" where
  "last_child node = (if \<not> has_children node then None else Some (last (children node)))"

text \<open>\<open>upper - lower\<close> of a region, with \<open>inf - x = inf\<close>.\<close>

fun region_range :: "Region \<Rightarrow> ext" where
  "region_range r = (case upper r of Fin u \<Rightarrow> Fin (u - lower r) | PInf \<Rightarrow> PInf)"

definition is_point :: "Region \<Rightarrow> bool" where
  "is_point r = (Fin (lower r) = upper r \<and> lower_inclusive r \<and> upper_inclusive r)"

text \<open>\<open>RegionTreeNode._is_more_specific_region\<close>.\<close>

definition is_more_specific_region :: "Region option \<Rightarrow> Region option \<Rightarrow> bool" where
  "is_more_specific_region region1 region2 =
     (case (region1, region2) of
        (Some r1, Some r2) \<Rightarrow>
          (let range1 = region_range r1; range2 = region_range r2
           in if range1 < range2 then True
              else if range1 > range2 then False
              else (is_point r1 \<and> \<not> is_point r2))
      | _ \<Rightarrow> region1 \<noteq> None)"

text \<open>
  \<open>RegionTreeNode.last_child_with_symbol\<close>: the loop keeps the pair
  \<open>(best_match, best_region)\<close>.
\<close>

fun last_child_with_symbol_loop ::
  "string \<Rightarrow> rat option \<Rightarrow> (nat \<times> Region) option \<Rightarrow> ((string \<times> Region) \<times> nat) list
     \<Rightarrow> (nat \<times> Region) option" where
  "last_child_with_symbol_loop symbol time_value best [] = best"
| "last_child_with_symbol_loop symbol time_value best (((sym', region), target_node) # rest) =
     (if sym' = symbol \<and> (case time_value of None \<Rightarrow> True | Some t \<Rightarrow> contains region t) then
        (if best = None \<or> is_more_specific_region (Some region) (map_option snd best)
         then last_child_with_symbol_loop symbol time_value (Some (target_node, region)) rest
         else last_child_with_symbol_loop symbol time_value best rest)
      else last_child_with_symbol_loop symbol time_value best rest)"

definition last_child_with_symbol :: "RegionTreeNode \<Rightarrow> string \<Rightarrow> rat option \<Rightarrow> nat option" where
  "last_child_with_symbol node symbol time_value =
     map_option fst (last_child_with_symbol_loop symbol time_value None (transitions node))"

text \<open>Replace the first occurrence, as \<open>children[children.index(old)] = new\<close> does.\<close>

fun replace_first :: "nat \<Rightarrow> nat \<Rightarrow> nat list \<Rightarrow> nat list" where
  "replace_first old new [] = []"
| "replace_first old new (x # xs) = (if x = old then new # xs else x # replace_first old new xs)"

text \<open>\<open>RegionTreeNode.replace_last_child\<close>, called on the node \<open>self_id\<close>.\<close>

definition replace_last_child :: "Min3RTA \<Rightarrow> nat \<Rightarrow> nat \<Rightarrow> Min3RTA" where
  "replace_last_child rta self_id new_target_node =
     (if \<not> has_children (nodes rta self_id) then rta
      else
        let rta1 = set_node rta new_target_node ((nodes rta new_target_node)\<lparr>is_merged := True\<rparr>);
            node = nodes rta1 self_id;
            old_target_node = last (children node);
            node1 = node\<lparr>transitions :=
                      map (\<lambda>(k, target_node).
                             if target_node = old_target_node then (k, new_target_node)
                             else (k, target_node)) (transitions node)\<rparr>;
            node2 = node1\<lparr>children := replace_first old_target_node new_target_node (children node1)\<rparr>
        in set_node rta1 self_id node2)"

text \<open>
  \<open>RegionTreeNode.is_equivalent_to\<close>. The source compares \<open>str(region)\<close>; the regions of a
  Min3RTA have integer or infinite bounds, on which \<open>str\<close> is injective, so the successor
  sets are compared on the regions themselves.
\<close>

definition successors_of :: "Min3RTA \<Rightarrow> RegionTreeNode \<Rightarrow> string \<Rightarrow> (nat \<times> Region) set" where
  "successors_of rta node symbol =
     set (map (\<lambda>((sym', region), target_node). (get_real_node_id rta target_node, region))
            (filter (\<lambda>((sym', region), target_node). sym' = symbol) (transitions node)))"

definition is_equivalent_to :: "Min3RTA \<Rightarrow> nat \<Rightarrow> nat \<Rightarrow> bool" where
  "is_equivalent_to rta self_id other_id =
     (let self_node = nodes rta self_id; other_node = nodes rta other_id
      in if is_accepting self_node \<noteq> is_accepting other_node \<or>
            is_rejecting self_node \<noteq> is_rejecting other_node then False
         else
           let self_symbols = set (map (\<lambda>((sym', _), _). sym') (transitions self_node));
               other_symbols = set (map (\<lambda>((sym', _), _). sym') (transitions other_node))
           in if self_symbols \<noteq> other_symbols then False
              else (\<forall>symbol \<in> self_symbols.
                      successors_of rta self_node symbol = successors_of rta other_node symbol))"

text \<open>
  \<open>Min3RTA._merge_node_transitions\<close>. The result is the returned Python value, \<open>Some False\<close>
  for \<open>False\<close> and \<open>None\<close> for the function running off its end, with the updated automaton.
\<close>

fun merge_inner ::
  "Min3RTA \<Rightarrow> nat \<Rightarrow> string \<Rightarrow> Region \<Rightarrow> nat \<Rightarrow> ((string \<times> Region) \<times> nat) list
     \<Rightarrow> bool \<times> Min3RTA" where
  "merge_inner rta target_node symbol region real_next_node [] = (False, rta)"
| "merge_inner rta target_node symbol region real_next_node (((t_sym, t_region), t_next) # rest) =
     (if t_sym = symbol \<and> get_real_node_id rta t_next = real_next_node then
        (let merged_region = merge_regions t_region region;
             merged_region = (None :: Region option)
         in case merged_region of
              None \<Rightarrow> merge_inner rta target_node symbol region real_next_node rest
            | Some m \<Rightarrow>
                (let tn = nodes rta target_node
                 in (True, set_node rta target_node (tn\<lparr>transitions :=
                       AList.update (t_sym, m) t_next
                         (AList.delete (t_sym, t_region) (transitions tn))\<rparr>))))
      else merge_inner rta target_node symbol region real_next_node rest)"

definition merge_outer_step ::
  "nat \<Rightarrow> Min3RTA \<Rightarrow> (string \<times> Region) \<times> nat \<Rightarrow> Min3RTA" where
  "merge_outer_step target_node rta item =
     (case item of ((symbol, region), next_node) \<Rightarrow>
        let real_next_node = get_real_node_id rta next_node;
            (has_transition, rta1) =
               merge_inner rta target_node symbol region real_next_node
                 (transitions (nodes rta target_node))
        in if \<not> has_transition then
             (let tn = nodes rta1 target_node;
                  tn1 = tn\<lparr>transitions :=
                          AList.update (symbol, region) real_next_node (transitions tn)\<rparr>;
                  tn2 = (if real_next_node \<notin> set (children tn1)
                         then tn1\<lparr>children := children tn1 @ [real_next_node]\<rparr> else tn1)
              in set_node rta1 target_node tn2)
           else rta1)"

definition merge_node_transitions :: "Min3RTA \<Rightarrow> nat \<Rightarrow> nat \<Rightarrow> bool option \<times> Min3RTA" where
  "merge_node_transitions rta source_node target_node =
     (if is_accepting (nodes rta source_node) \<noteq> is_accepting (nodes rta target_node) \<or>
         is_rejecting (nodes rta source_node) \<noteq> is_rejecting (nodes rta target_node)
      then (Some False, rta)
      else (None, foldl (merge_outer_step target_node) rta
                    (transitions (nodes rta source_node))))"

text \<open>Python's \<open>not x\<close> on a value that is \<open>True\<close>, \<open>False\<close> or \<open>None\<close>.\<close>

definition py_not :: "bool option \<Rightarrow> bool" where
  "py_not x = (x \<noteq> Some True)"

fun find_registered :: "Min3RTA \<Rightarrow> nat \<Rightarrow> nat list \<Rightarrow> nat option" where
  "find_registered rta child_node [] = None"
| "find_registered rta child_node (reg_id # rest) =
     (if is_equivalent_to rta child_node reg_id then Some reg_id
      else find_registered rta child_node rest)"

text \<open>\<open>Min3RTA.replace_or_register\<close>, with its depth and cycle guards.\<close>

function replace_or_register :: "Min3RTA \<Rightarrow> nat \<Rightarrow> nat set \<Rightarrow> nat \<Rightarrow> Min3RTA" where
  "replace_or_register rta state_id visited depth =
     (if depth > 1000 then rta
      else if state_id \<in> visited then rta
      else
        case last_child (nodes rta state_id) of
          None \<Rightarrow> rta
        | Some child_node \<Rightarrow>
            (let rta1 = (if has_children (nodes rta child_node)
                         then replace_or_register rta child_node (insert state_id visited) (depth + 1)
                         else rta)
             in case find_registered rta1 child_node (map fst (register rta1)) of
                  Some registered_id \<Rightarrow>
                    (let rta2 = replace_last_child rta1 state_id registered_id;
                         rta3 = rta2\<lparr>register := AList.update child_node registered_id (register rta2)\<rparr>;
                         (merge_success, rta4) = merge_node_transitions rta3 child_node registered_id
                     in if py_not merge_success then
                          replace_last_child
                            (rta4\<lparr>register := AList.delete child_node (register rta4)\<rparr>)
                            state_id child_node
                        else rta4)
                | None \<Rightarrow>
                    rta1\<lparr>register := AList.update child_node child_node (register rta1)\<rparr>))"
  by pat_completeness auto
termination
  by (relation "measure (\<lambda>(rta, state_id, visited, depth). 1001 - depth)") auto

text \<open>\<open>Min3RTA.add_suffix\<close>.\<close>

fun add_suffix_loop :: "Min3RTA \<Rightarrow> nat \<Rightarrow> trace \<Rightarrow> rat \<Rightarrow> nat \<times> Min3RTA" where
  "add_suffix_loop rta current_id [] max_time = (current_id, rta)"
| "add_suffix_loop rta current_id ((symbol, time) # rest) max_time =
     (let region = add_suffix_region time max_time;
          (new_id, rta1) = create_node rta False False;
          rta2 = add_transition rta1 current_id symbol region new_id
      in add_suffix_loop rta2 new_id rest max_time)"

definition add_suffix :: "Min3RTA \<Rightarrow> nat \<Rightarrow> trace \<Rightarrow> nat \<Rightarrow> bool \<Rightarrow> rat \<Rightarrow> Min3RTA" where
  "add_suffix rta current_id sample from_index is_positive max_time =
     (let (final_id, rta1) = add_suffix_loop rta current_id (drop from_index sample) max_time;
          n = nodes rta1 final_id
      in if is_positive then set_node rta1 final_id (n\<lparr>is_accepting := True\<rparr>)
         else set_node rta1 final_id (n\<lparr>is_rejecting := True\<rparr>))"

text \<open>\<open>Min3RTA.add\<close>: the common-prefix walk, then replace-or-register, then the suffix.\<close>

fun add_walk :: "Min3RTA \<Rightarrow> nat \<Rightarrow> nat \<Rightarrow> trace \<Rightarrow> nat \<times> nat" where
  "add_walk rta current_id pos [] = (current_id, pos)"
| "add_walk rta current_id pos ((symbol, time) # rest) =
     (case last_child_with_symbol (nodes rta current_id) symbol (Some time) of
        None \<Rightarrow> (current_id, pos)
      | Some next_node \<Rightarrow> add_walk rta next_node (pos + 1) rest)"

definition add :: "Min3RTA \<Rightarrow> trace \<Rightarrow> bool \<Rightarrow> rat \<Rightarrow> Min3RTA" where
  "add rta sample is_positive max_time =
     (let rta0 = (if root rta = None then snd (create_node rta False False) else rta);
          (current_id, pos) = add_walk rta0 (the (root rta0)) 0 sample;
          rta1 = (if has_children (nodes rta0 current_id)
                  then replace_or_register rta0 current_id {} 0 else rta0)
      in add_suffix rta1 current_id sample pos is_positive max_time)"

text \<open>\<open>Min3RTA.build_from_samples\<close>.\<close>

definition samples_max_time :: "trace list \<Rightarrow> trace list \<Rightarrow> rat" where
  "samples_max_time positive_samples negative_samples =
     foldl (\<lambda>m sample. foldl (\<lambda>m' (_, time). max m' time) m sample) 0
       (positive_samples @ negative_samples)"

definition build_from_samples :: "Min3RTA \<Rightarrow> trace list \<Rightarrow> trace list \<Rightarrow> Min3RTA" where
  "build_from_samples rta positive_samples negative_samples =
     (let rta0 = (if root rta = None then snd (create_node rta False False) else rta);
          max_time = samples_max_time positive_samples negative_samples;
          all_samples = map (\<lambda>s. (s, True)) positive_samples @
                        map (\<lambda>s. (s, False)) negative_samples;
          sorted_samples = sort_key fst all_samples;
          rta1 = foldl (\<lambda>r (sample, sample_type). add r sample sample_type max_time)
                   rta0 sorted_samples
      in replace_or_register rta1 (the (root rta1)) {} 0)"


section \<open>Min3RTA.py: accept/reject conflict resolution\<close>

text \<open>
  \<open>_sample_reaches_node\<close>: the walk takes, at each event, the first transition in dictionary
  order whose symbol matches and whose region contains the time, and moves to the target
  node itself (not to its representative). A missing root ends in the \<open>except\<close> branch or in
  the comparison of \<open>None\<close> with an id, both of which give \<open>False\<close>.
\<close>

fun reach_walk :: "Min3RTA \<Rightarrow> nat \<Rightarrow> trace \<Rightarrow> nat option" where
  "reach_walk min_3rta current_node_id [] = Some current_node_id"
| "reach_walk min_3rta current_node_id ((symbol, time_val) # rest) =
     (case find (\<lambda>((s, region), target_node). s = symbol \<and> contains region time_val)
             (transitions (nodes min_3rta current_node_id)) of
        None \<Rightarrow> None
      | Some (_, target_node) \<Rightarrow> reach_walk min_3rta target_node rest)"

definition sample_reaches_node :: "Min3RTA \<Rightarrow> trace \<Rightarrow> nat \<Rightarrow> bool" where
  "sample_reaches_node min_3rta sample target_node_id =
     (case root min_3rta of
        None \<Rightarrow> False
      | Some r \<Rightarrow> reach_walk min_3rta r sample = Some target_node_id)"

text \<open>The second timestamps of the length-2 samples, as the two loops collect them.\<close>

definition second_times :: "trace list \<Rightarrow> rat list" where
  "second_times samples = map (\<lambda>sample. snd (sample ! 1)) (filter (\<lambda>sample. length sample = 2) samples)"

text \<open>
  The averages are computed in floats. A float value is a finite float or an infinity; the
  sum of finite floats and its quotient by a length are never a NaN. \<open>float_result\<close> is the float value of an exact result: it is rounded, and a rounded
  magnitude of \<open>2^1024\<close> or more overflows to an infinity.
\<close>

datatype pyfloat = NegInf | Finite rat | PosInf

definition float_result :: "rat \<Rightarrow> pyfloat" where
  "float_result x =
     (let r = float_round x
      in if r = 0 \<or> binary_exponent r < 1024 then Finite r
         else if 0 < r then PosInf else NegInf)"

fun float_div :: "pyfloat \<Rightarrow> nat \<Rightarrow> pyfloat" where
  "float_div (Finite a) n = float_result (a / of_nat n)"
| "float_div PosInf n = PosInf"
| "float_div NegInf n = NegInf"

text \<open>The product of a float value with the float \<open>1.5\<close>.\<close>

fun float_mul_1_5 :: "pyfloat \<Rightarrow> pyfloat" where
  "float_mul_1_5 (Finite a) = float_result (a * (3 / 2))"
| "float_mul_1_5 PosInf = PosInf"
| "float_mul_1_5 NegInf = NegInf"

fun float_less :: "pyfloat \<Rightarrow> pyfloat \<Rightarrow> bool" where
  "float_less (Finite a) (Finite b) = (a < b)"
| "float_less NegInf NegInf = False"
| "float_less NegInf _ = True"
| "float_less (Finite a) PosInf = True"
| "float_less (Finite a) NegInf = False"
| "float_less PosInf _ = False"

text \<open>
  The built-in \<open>sum\<close> is a parameter \<open>py_sum\<close> of the model, since its float result depends on
  the interpreter: up to CPython 3.11 it adds from the left, starting from the integer \<open>0\<close> and
  rounding after each addition, which is \<open>left_sum\<close> below; from CPython 3.12 on it
  compensates the rounding errors of the additions.
\<close>

fun float_add :: "pyfloat \<Rightarrow> rat \<Rightarrow> pyfloat" where
  "float_add (Finite a) b = float_result (a + b)"
| "float_add PosInf b = PosInf"
| "float_add NegInf b = NegInf"

definition left_sum :: "rat list \<Rightarrow> pyfloat" where
  "left_sum xs = foldl float_add (Finite 0) xs"

text \<open>\<open>sum(xs) / len(xs)\<close>, for a non-empty list of floats.\<close>

definition average :: "(rat list \<Rightarrow> pyfloat) \<Rightarrow> rat list \<Rightarrow> pyfloat" where
  "average py_sum xs = float_div (py_sum xs) (length xs)"

text \<open>\<open>_resolve_conflict_by_time_patterns\<close>; the result is the returned string.\<close>

definition resolve_conflict_by_time_patterns ::
  "(rat list \<Rightarrow> pyfloat) \<Rightarrow> trace list \<Rightarrow> trace list \<Rightarrow> string" where
  "resolve_conflict_by_time_patterns py_sum positive_samples negative_samples =
     (if positive_samples = [] \<and> negative_samples = [] then ''rejecting''
      else if positive_samples = [] then ''rejecting''
      else if negative_samples = [] then ''accepting''
      else
        let pos_second_times = second_times positive_samples;
            neg_second_times = second_times negative_samples
        in if pos_second_times = [] \<or> neg_second_times = [] then
             (if length positive_samples \<ge> length negative_samples then ''accepting''
              else ''rejecting'')
           else
             let pos_avg = average py_sum pos_second_times;
                 neg_avg = average py_sum neg_second_times
             in if float_less (float_mul_1_5 neg_avg) pos_avg then ''accepting''
                else ''rejecting'')"

text \<open>
  \<open>convert_to_3DRTA\<close>, the accepting and rejecting sets: every node contributes the id of
  its representative.
\<close>

definition accepting_ids :: "Min3RTA \<Rightarrow> nat set" where
  "accepting_ids min_3rta =
     set (map (get_real_node_id min_3rta)
            (filter (\<lambda>node_id. is_accepting (nodes min_3rta node_id)) [0 ..< next_node_id min_3rta]))"

definition rejecting_ids :: "Min3RTA \<Rightarrow> nat set" where
  "rejecting_ids min_3rta =
     set (map (get_real_node_id min_3rta)
            (filter (\<lambda>node_id. is_rejecting (nodes min_3rta node_id)) [0 ..< next_node_id min_3rta]))"

text \<open>
  \<open>convert_to_3DRTA\<close>, one pass of the conflict loop over \<open>accepting & rejecting\<close>: the samples
  reaching the conflict node are collected and the node is dropped from one of the two sets.
  Each conflict node is treated on its own, so the order of the iteration does not matter.
\<close>

definition conflict_resolution ::
  "(rat list \<Rightarrow> pyfloat) \<Rightarrow> Min3RTA \<Rightarrow> trace list \<Rightarrow> trace list \<Rightarrow> nat \<Rightarrow> string" where
  "conflict_resolution py_sum min_3rta positive_samples negative_samples conflict_node =
     resolve_conflict_by_time_patterns py_sum
       (filter (\<lambda>sample. sample_reaches_node min_3rta sample conflict_node) positive_samples)
       (filter (\<lambda>sample. sample_reaches_node min_3rta sample conflict_node) negative_samples)"

definition resolve_conflicts ::
  "(rat list \<Rightarrow> pyfloat) \<Rightarrow> Min3RTA \<Rightarrow> trace list \<Rightarrow> trace list \<Rightarrow> nat set \<times> nat set
     \<Rightarrow> nat set \<times> nat set" where
  "resolve_conflicts py_sum min_3rta positive_samples negative_samples ar =
     (case ar of (accepting, rejecting) \<Rightarrow>
        let conflicts = accepting \<inter> rejecting
        in (accepting - {q \<in> conflicts.
                           conflict_resolution py_sum min_3rta positive_samples negative_samples q
                             \<noteq> ''accepting''},
            rejecting - {q \<in> conflicts.
                           conflict_resolution py_sum min_3rta positive_samples negative_samples q
                             = ''accepting''}))"

text \<open>
  The reading of the specification's resolver, for comparison with the code: a side with no
  reaching trace loses; otherwise the node is accepting exactly when both means exist and the
  positive mean exceeds one and a half times the negative one. The means are the exact ones.
\<close>

definition mean_of :: "rat list \<Rightarrow> rat option" where
  "mean_of xs = (if xs = [] then None else Some (sum_list xs / of_nat (length xs)))"

definition resolve_conflict_spec :: "trace list \<Rightarrow> trace list \<Rightarrow> string" where
  "resolve_conflict_spec positive_reaching negative_reaching =
     (if positive_reaching = [] then ''rejecting''
      else if negative_reaching = [] then ''accepting''
      else (case (mean_of (second_times positive_reaching),
                  mean_of (second_times negative_reaching)) of
              (Some mu_pos, Some mu_neg) \<Rightarrow>
                 if mu_pos > (3 / 2) * mu_neg then ''accepting'' else ''rejecting''
            | _ \<Rightarrow> ''rejecting''))"


section \<open>Encoding.py: the colour-zero constraint\<close>

text \<open>
  The Boolean variables of the encoder are Z3 constants named \<open>accepting_c\<close>,
  \<open>node_n_color_c\<close>, \<open>trans_s_R_c1_c2\<close> and \<open>color_c_used\<close>; a constraint is a formula over them.
\<close>

datatype bvar =
    accepting_var nat
  | node_color_var nat nat
  | trans_var nat string nat nat
  | color_used_var nat

datatype formula =
    Var bvar
  | Not formula
  | And "formula list"
  | Or "formula list"
  | Implies formula formula
  | Iff formula formula

fun eval :: "(bvar \<Rightarrow> bool) \<Rightarrow> formula \<Rightarrow> bool" where
  "eval m (Var v) = m v"
| "eval m (Not f) = (\<not> eval m f)"
| "eval m (And fs) = (\<forall>f \<in> set fs. eval m f)"
| "eval m (Or fs) = (\<exists>f \<in> set fs. eval m f)"
| "eval m (Implies f g) = (eval m f \<longrightarrow> eval m g)"
| "eval m (Iff f g) = (eval m f = eval m g)"

text \<open>
  The part of the \<open>Encoding\<close> object the constraint uses: \<open>positive_samples\<close> (which may be
  \<open>None\<close>), the assertions handed to the solver, and the list \<open>hard_constraints\<close>.
\<close>

record Encoding =
  positive_samples :: "trace list option"
  solver :: "formula list"
  hard_constraints :: "formula list"

definition add_hard_constraint :: "Encoding \<Rightarrow> formula \<Rightarrow> Encoding" where
  "add_hard_constraint enc constraint =
     enc\<lparr>solver := solver enc @ [constraint],
         hard_constraints := hard_constraints enc @ [constraint]\<rparr>"

text \<open>\<open>Encoding.color_accepting\<close> and \<open>Encoding.generate_color_zero_accepting_constraint\<close>.\<close>

definition color_accepting :: "nat \<Rightarrow> formula" where
  "color_accepting color = Var (accepting_var color)"

definition generate_color_zero_accepting_constraint :: "Encoding \<Rightarrow> Encoding" where
  "generate_color_zero_accepting_constraint enc =
     (case positive_samples enc of
        None \<Rightarrow> enc
      | Some ps \<Rightarrow>
          if length ps > 0 then
            (let color_0_accepting_var = color_accepting 0;
                 constraint = color_0_accepting_var
             in add_hard_constraint enc constraint)
          else enc)"

text \<open>A model of the solver satisfies every assertion added to it.\<close>

definition is_model :: "(bvar \<Rightarrow> bool) \<Rightarrow> formula list \<Rightarrow> bool" where
  "is_model m assertions = (\<forall>f \<in> set assertions. eval m f)"


section \<open>DRTA.py: acceptance of a timed word\<close>

text \<open>
  The multigraph of a \<open>DRTA\<close>: for every state of the graph, its successors in adjacency
  order, each with the data of the parallel edges in key order. An edge carries the
  attributes \<open>symbol\<close> and \<open>region_obj\<close>, either of which \<open>data.get\<close> may find missing.
\<close>

record edge_data =
  edge_symbol :: "string option"
  region_obj :: "Region option"

record DRTA =
  graph :: "(nat \<times> (nat \<times> edge_data list) list) list"
  drta_root :: "nat option"
  accepting_states :: "nat set"

datatype py_error = NetworkXError

text \<open>
  The two nested loops over the successors and their edges: the first edge with the symbol
  and a region object containing the time gives the next state.
\<close>

definition edge_matches :: "string \<Rightarrow> rat \<Rightarrow> edge_data \<Rightarrow> bool" where
  "edge_matches symbol time data =
     (edge_symbol data = Some symbol \<and>
      (case region_obj data of None \<Rightarrow> False | Some r \<Rightarrow> contains r time))"

fun find_transition :: "string \<Rightarrow> rat \<Rightarrow> (nat \<times> edge_data list) list \<Rightarrow> nat option" where
  "find_transition symbol time [] = None"
| "find_transition symbol time ((target, edges) # rest) =
     (if \<exists>data \<in> set edges. edge_matches symbol time data then Some target
      else find_transition symbol time rest)"

fun accepts_loop :: "DRTA \<Rightarrow> nat option \<Rightarrow> trace \<Rightarrow> py_error + bool" where
  "accepts_loop drta current_state [] =
     Inr (case current_state of None \<Rightarrow> False | Some q \<Rightarrow> q \<in> accepting_states drta)"
| "accepts_loop drta current_state ((symbol, time) # rest) =
     (case current_state of
        None \<Rightarrow> Inl NetworkXError
      | Some q \<Rightarrow>
          (case map_of (graph drta) q of
             None \<Rightarrow> Inl NetworkXError
           | Some succs \<Rightarrow>
               (case find_transition symbol time succs of
                  None \<Rightarrow> Inr False
                | Some target \<Rightarrow> accepts_loop drta (Some target) rest)))"

text \<open>\<open>accepts\<close>.\<close>

definition accepts :: "DRTA \<Rightarrow> trace \<Rightarrow> py_error + bool" where
  "accepts drta word =
     (if word = [] then
        Inr (case drta_root drta of None \<Rightarrow> False | Some r \<Rightarrow> r \<in> accepting_states drta)
      else accepts_loop drta (drta_root drta) word)"


section \<open>test\_encoding.py: the verifier\<close>

text \<open>A region of the optimiser and the verifier is a tuple \<open>(lower, upper, lower_closed, upper_closed)\<close>.\<close>

type_synonym tregion = "rat \<times> ext \<times> bool \<times> bool"

text \<open>\<open>is_timestamp_in_region\<close>.\<close>

definition is_timestamp_in_region :: "rat \<Rightarrow> tregion \<Rightarrow> bool" where
  "is_timestamp_in_region timestamp region =
     (case region of (lo, hi, lower_closed, upper_closed) \<Rightarrow>
        if (if lower_closed then timestamp < lo else timestamp \<le> lo) then False
        else if (if upper_closed then Fin timestamp > hi else Fin timestamp \<ge> hi) then False
        else True)"

text \<open>
  The optimised transitions are a dictionary from \<open>(state_from, sym)\<close> to a dictionary from
  target colours to region lists. The key \<open>sym\<close> is the decimal string of a symbol id and is
  compared with \<open>str(sym_id)\<close>; both are identified with the id itself.
\<close>

type_synonym optimized = "((nat \<times> nat) \<times> (nat \<times> tregion list) list) list"

definition possible_transitions_of :: "optimized \<Rightarrow> nat \<Rightarrow> nat \<Rightarrow> rat \<Rightarrow> nat list" where
  "possible_transitions_of optimized_transitions current_state symbol_id timestamp =
     concat (map (\<lambda>((state_from, sym'), target_regions).
                    if state_from = current_state \<and> sym' = symbol_id then
                      concat (map (\<lambda>(target_state, regions).
                                concat (map (\<lambda>region.
                                          if is_timestamp_in_region timestamp region
                                          then [target_state] else []) regions))
                              target_regions)
                    else [])
               optimized_transitions)"

datatype reason =
    empty_sample
  | empty_sample_in_accepting_state
  | unknown_symbol string nat
  | no_transition nat string rat
  | multiple_possible_transitions nat string rat "nat list"
  | reached_accepting_state
  | reached_rejecting_state

record sim_result =
  accepted :: bool
  path :: "nat list"
  reason :: reason

text \<open>The loop of \<open>simulate_drta_execution\<close> over the events, from event number \<open>event_idx\<close>.\<close>

fun simulate_loop ::
  "optimized \<Rightarrow> nat list \<Rightarrow> (string \<Rightarrow> nat option) \<Rightarrow> nat \<Rightarrow> nat list \<Rightarrow> nat \<Rightarrow> trace
     \<Rightarrow> sim_result" where
  "simulate_loop optimized_transitions accepting_colors symbol_to_id current_state pth event_idx [] =
     (let is_accepted = (current_state \<in> set accepting_colors)
      in \<lparr>accepted = is_accepted, path = pth,
          reason = (if is_accepted then reached_accepting_state else reached_rejecting_state)\<rparr>)"
| "simulate_loop optimized_transitions accepting_colors symbol_to_id current_state pth event_idx
       ((symbol, timestamp) # rest) =
     (case symbol_to_id symbol of
        None \<Rightarrow> \<lparr>accepted = False, path = pth, reason = unknown_symbol symbol (event_idx + 1)\<rparr>
      | Some symbol_id \<Rightarrow>
          (let possible_transitions =
                 possible_transitions_of optimized_transitions current_state symbol_id timestamp
           in if possible_transitions = [] then
                \<lparr>accepted = False, path = pth,
                 reason = no_transition current_state symbol timestamp\<rparr>
              else if length possible_transitions > 1 then
                \<lparr>accepted = False, path = pth,
                 reason = multiple_possible_transitions current_state symbol timestamp
                            possible_transitions\<rparr>
              else simulate_loop optimized_transitions accepting_colors symbol_to_id
                     (possible_transitions ! 0) (pth @ [possible_transitions ! 0])
                     (event_idx + 1) rest))"

text \<open>\<open>simulate_drta_execution\<close>; \<open>alphabet\<close> maps a symbol to its id.\<close>

definition simulate_drta_execution ::
  "trace \<Rightarrow> optimized \<Rightarrow> nat list \<Rightarrow> (string \<Rightarrow> nat option) \<Rightarrow> sim_result" where
  "simulate_drta_execution sample optimized_transitions accepting_colors alphabet =
     (if sample = [] then
        \<lparr>accepted = (0 \<in> set accepting_colors), path = [0],
         reason = (if 0 \<notin> set accepting_colors then empty_sample
                   else empty_sample_in_accepting_state)\<rparr>
      else simulate_loop optimized_transitions accepting_colors alphabet 0 [0] 0 sample)"

text \<open>
  The normal run of the loop over a prefix of the sample: every event has a known symbol and
  exactly one enabled transition. It yields the state and the path reached, or \<open>None\<close> when
  some event of the prefix stops the run.
\<close>

fun run_prefix ::
  "optimized \<Rightarrow> (string \<Rightarrow> nat option) \<Rightarrow> nat \<Rightarrow> nat list \<Rightarrow> trace \<Rightarrow> (nat \<times> nat list) option" where
  "run_prefix optimized_transitions symbol_to_id current_state pth [] = Some (current_state, pth)"
| "run_prefix optimized_transitions symbol_to_id current_state pth ((symbol, timestamp) # rest) =
     (case symbol_to_id symbol of
        None \<Rightarrow> None
      | Some symbol_id \<Rightarrow>
          (case possible_transitions_of optimized_transitions current_state symbol_id timestamp of
             [q] \<Rightarrow> run_prefix optimized_transitions symbol_to_id q (pth @ [q]) rest
           | _ \<Rightarrow> None))"


section \<open>Properties\<close>

subsection \<open>Region alphabet, time-to-region mapping and merging\<close>

lemma py_int_ceiling: "py_int tau + (if tau > of_int (py_int tau) then 1 else 0) = \<lceil>tau\<rceil>"
proof (cases "0 \<le> tau")
  case True
  have le: "of_int \<lfloor>tau\<rfloor> \<le> tau" by simp
  show ?thesis
  proof (cases "tau = of_int \<lfloor>tau\<rfloor>")
    case eq: True
    then have "\<lceil>tau\<rceil> = \<lfloor>tau\<rfloor>" by (simp add: ceiling_altdef)
    with True eq show ?thesis unfolding py_int_def by simp
  next
    case neq: False
    with le have lt: "of_int \<lfloor>tau\<rfloor> < tau" by linarith
    from neq have "\<lceil>tau\<rceil> = \<lfloor>tau\<rfloor> + 1" by (simp add: ceiling_altdef)
    with True lt show ?thesis unfolding py_int_def by simp
  qed
next
  case False
  have "tau \<le> of_int \<lceil>tau\<rceil>" by simp
  then have "\<not> tau > of_int \<lceil>tau\<rceil>" by linarith
  with False show ?thesis unfolding py_int_def by simp
qed

lemma kappa_step_ceiling: "kappa_step k tau = max k \<lceil>tau\<rceil>"
  unfolding kappa_step_def by (simp only: py_int_ceiling)

lemma foldl_kappa_trace:
  "foldl (\<lambda>k (_, tau). kappa_step k tau) k trace = foldl (\<lambda>k t. max k \<lceil>t\<rceil>) k (map snd trace)"
  by (induction trace arbitrary: k) (auto simp: kappa_step_ceiling)

lemma foldl_kappa_traces:
  "foldl (\<lambda>kappa trace. foldl (\<lambda>k (_, tau). kappa_step k tau) kappa trace) k S
     = foldl (\<lambda>k t. max k \<lceil>t\<rceil>) k (concat (map (map snd) S))"
  by (induction S arbitrary: k) (auto simp: foldl_kappa_trace)

lemma foldl_max_ceiling:
  "foldl (\<lambda>k t. max k \<lceil>t\<rceil>) k ts = (if ts = [] then k else max k \<lceil>Max (set ts)\<rceil>)"
proof (induction ts arbitrary: k)
  case Nil
  then show ?case by simp
next
  case (Cons t ts)
  show ?case
  proof (cases "ts = []")
    case True
    then show ?thesis by simp
  next
    case False
    have "\<lceil>max t (Max (set ts))\<rceil> = max \<lceil>t\<rceil> \<lceil>Max (set ts)\<rceil>"
      by (simp add: max_def ceiling_mono)
         (metis ceiling_mono dual_order.antisym linorder_linear)
    with False Cons show ?thesis by (simp add: max.assoc)
  qed
qed


lemma regions_loop_length:
  "length (foldl regions_step [mk_Region 0 (Fin 0) True True] (map int [0 ..< n])) = 2 * n + 1"
  by (induction n) (auto simp: regions_step_def)

lemma regions_loop_nth:
  "(\<forall>i\<le>n. foldl regions_step [mk_Region 0 (Fin 0) True True] (map int [0 ..< n]) ! (2 * i)
            = mk_Region (of_nat i) (Fin (of_nat i)) True True) \<and>
   (\<forall>i<n. foldl regions_step [mk_Region 0 (Fin 0) True True] (map int [0 ..< n]) ! (2 * i + 1)
            = mk_Region (of_nat i) (Fin (of_nat i + 1)) False False)"
proof (induction n)
  case 0
  then show ?case by simp
next
  case (Suc n)
  let ?L = "foldl regions_step [mk_Region 0 (Fin 0) True True] (map int [0 ..< n])"
  have len: "length ?L = 2 * n + 1" by (rule regions_loop_length)
  have step: "foldl regions_step [mk_Region 0 (Fin 0) True True] (map int [0 ..< Suc n])
     = ?L @ [mk_Region (of_nat n) (Fin (of_nat n + 1)) False False,
             mk_Region (of_nat n + 1) (Fin (of_nat n + 1)) True True]"
    by (simp add: regions_step_def)
  show ?case
  proof (intro conjI allI impI)
    fix i assume "i \<le> Suc n"
    show "foldl regions_step [mk_Region 0 (Fin 0) True True] (map int [0 ..< Suc n]) ! (2 * i)
            = mk_Region (of_nat i) (Fin (of_nat i)) True True"
    proof (cases "i \<le> n")
      case True
      then have "2 * i < length ?L" using len by simp
      with True Suc show ?thesis unfolding step by (simp add: nth_append)
    next
      case False
      with \<open>i \<le> Suc n\<close> have i: "i = Suc n" by simp
      have "2 * i = length ?L + 1" using len i by simp
      then show ?thesis unfolding step using i by (simp add: nth_append add.commute)
    qed
  next
    fix i assume "i < Suc n"
    show "foldl regions_step [mk_Region 0 (Fin 0) True True] (map int [0 ..< Suc n]) ! (2 * i + 1)
            = mk_Region (of_nat i) (Fin (of_nat i + 1)) False False"
    proof (cases "i < n")
      case True
      then have "2 * i + 1 < length ?L" using len by simp
      with True Suc show ?thesis unfolding step by (simp add: nth_append)
    next
      case False
      with \<open>i < Suc n\<close> have i: "i = n" by simp
      have "2 * i + 1 = length ?L" using len i by simp
      then show ?thesis unfolding step using i by (simp add: nth_append)
    qed
  qed
qed


lemma kappa_nonneg_gen: "0 \<le> k \<Longrightarrow> 0 \<le> foldl (\<lambda>k t. max k \<lceil>t\<rceil>) k ts"
  by (induction ts arbitrary: k) auto

lemma BuildTimedAPTA_kappa_eq:
  "BuildTimedAPTA_kappa Sp Sn = foldl (\<lambda>k t. max k \<lceil>t\<rceil>) 0 (sample_times Sp Sn)"
  unfolding BuildTimedAPTA_kappa_def sample_times_def by (rule foldl_kappa_traces)

lemma BuildTimedAPTA_kappa_nonneg: "0 \<le> BuildTimedAPTA_kappa Sp Sn"
  unfolding BuildTimedAPTA_kappa_eq by (rule kappa_nonneg_gen) simp

lemma Regions_nth:
  assumes "0 \<le> kappa"
  shows "length (BuildTimedAPTA_Regions kappa) = 2 * nat kappa + 2"
    and "\<forall>i\<le>nat kappa. BuildTimedAPTA_Regions kappa ! (2 * i)
            = mk_Region (of_nat i) (Fin (of_nat i)) True True"
    and "\<forall>i<nat kappa. BuildTimedAPTA_Regions kappa ! (2 * i + 1)
            = mk_Region (of_nat i) (Fin (of_nat i + 1)) False False"
    and "BuildTimedAPTA_Regions kappa ! (2 * nat kappa + 1) = mk_Region (of_int kappa) PInf False False"
proof -
  let ?L = "foldl regions_step [mk_Region 0 (Fin 0) True True] (map int [0 ..< nat kappa])"
  have len: "length ?L = 2 * nat kappa + 1" by (rule regions_loop_length)
  show "length (BuildTimedAPTA_Regions kappa) = 2 * nat kappa + 2"
    unfolding BuildTimedAPTA_Regions_def using len by simp
  show "\<forall>i\<le>nat kappa. BuildTimedAPTA_Regions kappa ! (2 * i)
            = mk_Region (of_nat i) (Fin (of_nat i)) True True"
  proof (intro allI impI)
    fix i assume "i \<le> nat kappa"
    then have "2 * i < length ?L" using len by simp
    then have "BuildTimedAPTA_Regions kappa ! (2 * i) = ?L ! (2 * i)"
      unfolding BuildTimedAPTA_Regions_def by (simp add: nth_append)
    with \<open>i \<le> nat kappa\<close> regions_loop_nth[of "nat kappa"]
    show "BuildTimedAPTA_Regions kappa ! (2 * i) = mk_Region (of_nat i) (Fin (of_nat i)) True True"
      by simp
  qed
  show "\<forall>i<nat kappa. BuildTimedAPTA_Regions kappa ! (2 * i + 1)
            = mk_Region (of_nat i) (Fin (of_nat i + 1)) False False"
  proof (intro allI impI)
    fix i assume "i < nat kappa"
    then have "2 * i + 1 < length ?L" using len by simp
    then have "BuildTimedAPTA_Regions kappa ! (2 * i + 1) = ?L ! (2 * i + 1)"
      unfolding BuildTimedAPTA_Regions_def by (simp add: nth_append)
    with \<open>i < nat kappa\<close> regions_loop_nth[of "nat kappa"]
    show "BuildTimedAPTA_Regions kappa ! (2 * i + 1)
            = mk_Region (of_nat i) (Fin (of_nat i + 1)) False False"
      by simp
  qed
  have "BuildTimedAPTA_Regions kappa ! (2 * nat kappa + 1) = BuildTimedAPTA_Regions kappa ! length ?L"
    using len by simp
  then show "BuildTimedAPTA_Regions kappa ! (2 * nat kappa + 1) = mk_Region (of_int kappa) PInf False False"
    unfolding BuildTimedAPTA_Regions_def by (simp only: nth_append_length)
qed

text \<open>
  Claim C7. When the combined sample set holds at least one timestamp and all timestamps are
  non-negative, \<open>BuildTimedAPTA\<close> computes \<open>kappa\<close> as the ceiling of the largest timestamp, and
  its region list has exactly \<open>2 * kappa + 2\<close> entries: \<open>[i, i]\<close> at position \<open>2 * i\<close> for every
  \<open>i \<le> kappa\<close>, \<open>(i, i + 1)\<close> at position \<open>2 * i + 1\<close> for every \<open>i < kappa\<close>, and
  \<open>(kappa, inf)\<close> last.
\<close>

theorem BuildTimedAPTA_region_alphabet:
  assumes "sample_times S_positive S_negative \<noteq> []"
    and "\<forall>t \<in> set (sample_times S_positive S_negative). 0 \<le> t"
  shows "BuildTimedAPTA_kappa S_positive S_negative
           = \<lceil>Max (set (sample_times S_positive S_negative))\<rceil> \<and>
         length (BuildTimedAPTA_Regions (BuildTimedAPTA_kappa S_positive S_negative))
           = 2 * nat (BuildTimedAPTA_kappa S_positive S_negative) + 2 \<and>
         (\<forall>i \<le> nat (BuildTimedAPTA_kappa S_positive S_negative).
            BuildTimedAPTA_Regions (BuildTimedAPTA_kappa S_positive S_negative) ! (2 * i)
              = mk_Region (of_nat i) (Fin (of_nat i)) True True) \<and>
         (\<forall>i < nat (BuildTimedAPTA_kappa S_positive S_negative).
            BuildTimedAPTA_Regions (BuildTimedAPTA_kappa S_positive S_negative) ! (2 * i + 1)
              = mk_Region (of_nat i) (Fin (of_nat i + 1)) False False) \<and>
         BuildTimedAPTA_Regions (BuildTimedAPTA_kappa S_positive S_negative)
             ! (2 * nat (BuildTimedAPTA_kappa S_positive S_negative) + 1)
              = mk_Region (of_int (BuildTimedAPTA_kappa S_positive S_negative)) PInf False False"
proof -
  let ?ts = "sample_times S_positive S_negative"
  let ?k = "BuildTimedAPTA_kappa S_positive S_negative"
  have "Max (set ?ts) \<in> set ?ts" using assms(1) by (intro Max_in) auto
  then have "0 \<le> Max (set ?ts)" using assms(2) by blast
  then have "0 \<le> \<lceil>Max (set ?ts)\<rceil>" by (simp add: ceiling_mono[of 0, simplified])
  then have k: "?k = \<lceil>Max (set ?ts)\<rceil>"
    unfolding BuildTimedAPTA_kappa_eq foldl_max_ceiling using assms(1) by simp
  have nn: "0 \<le> ?k" by (rule BuildTimedAPTA_kappa_nonneg)
  from k Regions_nth[OF nn] show ?thesis by blast
qed

text \<open>The theorem at the samples \<open>[('a', 1.5)]\<close> and \<open>[('b', 2)]\<close>, where \<open>kappa = 2\<close>.\<close>

theorem BuildTimedAPTA_region_alphabet_witness:
  "BuildTimedAPTA_kappa [[(''a'', 3 / 2)]] [[(''b'', 2)]] = 2 \<and>
   length (BuildTimedAPTA_Regions 2) = 6 \<and>
   BuildTimedAPTA_Regions 2 ! 4 = mk_Region 2 (Fin 2) True True \<and>
   BuildTimedAPTA_Regions 2 ! 3 = mk_Region 1 (Fin 2) False False \<and>
   BuildTimedAPTA_Regions 2 ! 5 = mk_Region 2 PInf False False"
proof -
  have h1: "sample_times [[(''a'', 3 / 2)]] [[(''b'', 2)]] \<noteq> []"
    by (simp add: sample_times_def)
  have h2: "\<forall>t \<in> set (sample_times [[(''a'', 3 / 2)]] [[(''b'', 2)]]). 0 \<le> t"
    by (simp add: sample_times_def)
  have ts: "sample_times [[(''a'', 3 / 2)]] [[(''b'', 2)]] = [3 / 2, 2]"
    by (simp add: sample_times_def)
  have c: "\<lceil>Max (set [3 / 2, 2 :: rat])\<rceil> = 2" by simp
  note t = BuildTimedAPTA_region_alphabet[OF h1 h2, unfolded ts c]
  from t have k: "BuildTimedAPTA_kappa [[(''a'', 3 / 2)]] [[(''b'', 2)]] = 2" by blast
  from t[unfolded k] have len: "length (BuildTimedAPTA_Regions 2) = 2 * nat 2 + 2"
    and pt: "\<forall>i \<le> nat 2. BuildTimedAPTA_Regions 2 ! (2 * i) = mk_Region (of_nat i) (Fin (of_nat i)) True True"
    and op: "\<forall>i < nat 2. BuildTimedAPTA_Regions 2 ! (2 * i + 1) = mk_Region (of_nat i) (Fin (of_nat i + 1)) False False"
    and la: "BuildTimedAPTA_Regions 2 ! (2 * nat 2 + 1) = mk_Region (of_int 2) PInf False False"
    by blast+
  from pt have "(2::nat) \<le> nat 2 \<longrightarrow> BuildTimedAPTA_Regions 2 ! (2 * 2) = mk_Region (of_nat 2) (Fin (of_nat 2)) True True"
    by (rule spec)
  then have p4: "BuildTimedAPTA_Regions 2 ! 4 = mk_Region 2 (Fin 2) True True" by simp
  from op have "(1::nat) < nat 2 \<longrightarrow> BuildTimedAPTA_Regions 2 ! (2 * 1 + 1) = mk_Region (of_nat 1) (Fin (of_nat 1 + 1)) False False"
    by (rule spec)
  then have p3: "BuildTimedAPTA_Regions 2 ! 3 = mk_Region 1 (Fin 2) False False" by simp
  from len la p3 p4 have "length (BuildTimedAPTA_Regions 2) = 6"
    "BuildTimedAPTA_Regions 2 ! 4 = mk_Region 2 (Fin 2) True True"
    "BuildTimedAPTA_Regions 2 ! 3 = mk_Region 1 (Fin 2) False False"
    "BuildTimedAPTA_Regions 2 ! 5 = mk_Region 2 PInf False False"
    by simp_all
  with k show ?thesis by simp
qed

lemma py_int_nonneg: "0 \<le> t \<Longrightarrow> py_int t = \<lfloor>t\<rfloor>"
  by (simp add: py_int_def)

lemma is_integer_iff: "(t = of_int \<lfloor>t\<rfloor>) = (t \<in> \<int>)" for t :: rat
  by (metis Ints_of_int floor_of_int Ints_cases)

text \<open>
  Claim C8 at the regions \<open>(0, 1)\<close> and \<open>(1, 2)\<close>: \<open>_merge_regions\<close> takes them for
  overlapping, since its overlap test compares the bounds with \<open>\<le>\<close> and ignores the closure
  flags, and returns \<open>(0, 2)\<close>, which contains the time \<open>1\<close> that neither region contains.
\<close>

theorem merge_regions_open_touching:
  "merge_regions (mk_Region 0 (Fin 1) False False) (mk_Region 1 (Fin 2) False False)
     = Some (mk_Region 0 (Fin 2) False False) \<and>
   contains (mk_Region 0 (Fin 2) False False) 1 \<and>
   \<not> contains (mk_Region 0 (Fin 1) False False) 1 \<and>
   \<not> contains (mk_Region 1 (Fin 2) False False) 1"
  by (simp add: merge_regions_def are_regions_adjacent_or_overlapping_def mk_Region_def
        contains_def)

subsection \<open>The empty word and the verifier\<close>

text \<open>
  Claim C9. On the empty timed word \<open>accepts\<close> returns a Boolean, which is \<open>True\<close> exactly when the
  root of the automaton is one of its accepting states, and \<open>simulate_drta_execution\<close> reports
  \<open>accepted\<close> exactly when colour \<open>0\<close> is among the accepting colours, with the path \<open>[0]\<close>.
\<close>

theorem empty_word_accepted_iff_initial_accepting:
  "(\<exists>b. accepts drta [] = Inr b) \<and>
   (accepts drta [] = Inr True) = (\<exists>r. drta_root drta = Some r \<and> r \<in> accepting_states drta) \<and>
   accepted (simulate_drta_execution [] optimized_transitions accepting_colors alphabet)
     = (0 \<in> set accepting_colors) \<and>
   path (simulate_drta_execution [] optimized_transitions accepting_colors alphabet) = [0]"
  by (cases "drta_root drta") (auto simp: accepts_def simulate_drta_execution_def)

text \<open>The theorem at an automaton whose root \<open>0\<close> is accepting, and at the accepting colours \<open>[1, 0]\<close>.\<close>

theorem empty_word_accepted_iff_initial_accepting_witness:
  "accepts \<lparr>graph = [(0, [(1, [\<lparr>edge_symbol = Some ''a'', region_obj = Some (mk_Region 0 PInf True False)\<rparr>])]), (1, [])],
            drta_root = Some 0, accepting_states = {0}\<rparr> [] = Inr True \<and>
   accepted (simulate_drta_execution [] [] [1, 0] (\<lambda>s. None)) = True"
  using empty_word_accepted_iff_initial_accepting
    [of "\<lparr>graph = [(0, [(1, [\<lparr>edge_symbol = Some ''a'', region_obj = Some (mk_Region 0 PInf True False)\<rparr>])]), (1, [])],
            drta_root = Some 0, accepting_states = {0}\<rparr>" "[]" "[1, 0]" "\<lambda>s. None"]
  by simp

lemma simulate_loop_run_prefix:
  "run_prefix ot al q p pre = Some (q', p') \<Longrightarrow>
     simulate_loop ot ac al q p i (pre @ rest) = simulate_loop ot ac al q' p' (i + length pre) rest"
proof (induction pre arbitrary: q p i)
  case Nil
  then show ?case by simp
next
  case (Cons e pre)
  obtain symbol timestamp where e: "e = (symbol, timestamp)" by (cases e)
  from Cons.prems e obtain symbol_id where sid: "al symbol = Some symbol_id"
    by (cases "al symbol") simp_all
  from Cons.prems e sid obtain q1 where
    pt: "possible_transitions_of ot q symbol_id timestamp = [q1]"
    and rp: "run_prefix ot al q1 (p @ [q1]) pre = Some (q', p')"
    by (auto split: list.splits)
  from Cons.IH[OF rp, of "i + 1"] e sid pt show ?case by simp
qed

lemma run_prefix_path:
  "run_prefix ot al q p pre = Some (q', p') \<Longrightarrow>
     length p' = length p + length pre \<and> take (length p) p' = p \<and> last (q # p') = (if pre = [] then last (q # p) else q')"
proof (induction pre arbitrary: q p)
  case Nil
  then show ?case by simp
next
  case (Cons e pre)
  obtain symbol timestamp where e: "e = (symbol, timestamp)" by (cases e)
  from Cons.prems e obtain symbol_id where sid: "al symbol = Some symbol_id"
    by (cases "al symbol") simp_all
  from Cons.prems e sid obtain q1 where
    pt: "possible_transitions_of ot q symbol_id timestamp = [q1]"
    and rp: "run_prefix ot al q1 (p @ [q1]) pre = Some (q', p')"
    by (auto split: list.splits)
  from Cons.IH[OF rp] have l: "length p' = length p + 1 + length pre"
    and t: "take (length p + 1) p' = p @ [q1]"
    and la: "last (q1 # p') = (if pre = [] then q1 else q')" by simp_all
  from t have "take (length p) (take (length p + 1) p') = p" by simp
  then have t': "take (length p) p' = p" by (simp add: min_def)
  from l have ne: "p' \<noteq> []" by auto
  with la have "last p' = (if pre = [] then q1 else q')" by simp
  moreover have "pre = [] \<Longrightarrow> q1 = q'" using rp by simp
  ultimately have "last p' = q'" by auto
  with l t' ne show ?case by simp
qed

text \<open>
  Claim C10. Let the run over the events before some event have gone normally, reaching the state
  \<open>q\<close> with the path \<open>pth\<close>, and let the symbol of that event be known and more than one
  transition from \<open>q\<close> be enabled for its symbol and timestamp. Then \<open>simulate_drta_execution\<close>
  returns a result, with \<open>accepted = False\<close>, with the path built so far (the start state \<open>0\<close>
  and one state for each event before, ending in \<open>q\<close>), and the events after it are not read.
\<close>

theorem simulate_multiple_transitions_rejected:
  assumes "run_prefix optimized_transitions alphabet 0 [0] pre = Some (q, pth)"
    and "alphabet symbol = Some symbol_id"
    and "length (possible_transitions_of optimized_transitions q symbol_id timestamp) > 1"
  shows "simulate_drta_execution (pre @ (symbol, timestamp) # post) optimized_transitions
           accepting_colors alphabet
         = \<lparr>accepted = False, path = pth,
            reason = multiple_possible_transitions q symbol timestamp
                       (possible_transitions_of optimized_transitions q symbol_id timestamp)\<rparr>
         \<and> length pth = length pre + 1 \<and> hd pth = 0 \<and> last pth = q"
proof -
  let ?pt = "possible_transitions_of optimized_transitions q symbol_id timestamp"
  from assms(3) have ne: "?pt \<noteq> []" by auto
  have "simulate_drta_execution (pre @ (symbol, timestamp) # post) optimized_transitions
           accepting_colors alphabet
        = simulate_loop optimized_transitions accepting_colors alphabet 0 [0] 0
            (pre @ (symbol, timestamp) # post)"
    by (simp add: simulate_drta_execution_def)
  also have "\<dots> = simulate_loop optimized_transitions accepting_colors alphabet q pth
                     (0 + length pre) ((symbol, timestamp) # post)"
    by (rule simulate_loop_run_prefix[OF assms(1)])
  also have "\<dots> = \<lparr>accepted = False, path = pth,
            reason = multiple_possible_transitions q symbol timestamp ?pt\<rparr>"
    using assms(2,3) ne by (simp add: Let_def)
  finally have r: "simulate_drta_execution (pre @ (symbol, timestamp) # post) optimized_transitions
           accepting_colors alphabet
         = \<lparr>accepted = False, path = pth,
            reason = multiple_possible_transitions q symbol timestamp ?pt\<rparr>" .
  from run_prefix_path[OF assms(1)] have l: "length pth = length pre + 1"
    and t: "take 1 pth = [0]" and la: "last (0 # pth) = (if pre = [] then 0 else q)" by simp_all
  from l have ne': "pth \<noteq> []" by auto
  from t ne' have h: "hd pth = 0" by (cases pth) simp_all
  have "pre = [] \<Longrightarrow> q = 0" using assms(1) by simp
  with la ne' have "last pth = q" by auto
  with r l h show ?thesis by simp
qed

text \<open>
  The theorem at a sample of three events: the first event moves from colour \<open>0\<close> to colour \<open>1\<close>,
  where the regions \<open>[0, 2]\<close> to colour \<open>0\<close> and \<open>[1, inf)\<close> to colour \<open>2\<close> both contain the
  timestamp \<open>3 / 2\<close> of the second event.
\<close>

theorem simulate_multiple_transitions_rejected_witness:
  "run_prefix [((0, 0), [(1, [(0, PInf, True, False)])]),
               ((1, 0), [(0, [(0, Fin 2, True, True)]), (2, [(1, PInf, True, False)])])]
      (\<lambda>s. if s = ''a'' then Some 0 else None) 0 [0] [(''a'', 1 / 2)] = Some (1, [0, 1]) \<and>
   simulate_drta_execution ([(''a'', 1 / 2)] @ (''a'', 3 / 2) # [(''a'', 5)])
      [((0, 0), [(1, [(0, PInf, True, False)])]),
       ((1, 0), [(0, [(0, Fin 2, True, True)]), (2, [(1, PInf, True, False)])])]
      [1] (\<lambda>s. if s = ''a'' then Some 0 else None)
    = \<lparr>accepted = False, path = [0, 1],
       reason = multiple_possible_transitions 1 ''a'' (3 / 2) [0, 2]\<rparr>"
proof -
  let ?ot = "[((0, 0), [(1, [(0, PInf, True, False)])]),
              ((1, 0), [(0, [(0, Fin 2, True, True)]), (2, [(1, PInf, True, False)])])]
             :: optimized"
  let ?al = "\<lambda>s. if s = ''a'' then Some (0::nat) else None"
  have p0: "possible_transitions_of ?ot 0 0 (1 / 2) = [1]"
    by (simp add: possible_transitions_of_def is_timestamp_in_region_def)
  have p1: "possible_transitions_of ?ot 1 0 (3 / 2) = [0, 2]"
    by (simp add: possible_transitions_of_def is_timestamp_in_region_def)
  have h1: "run_prefix ?ot ?al 0 [0] [(''a'', 1 / 2)] = Some (1, [0, 1])"
    using p0 by simp
  have h2: "?al ''a'' = Some 0" by simp
  have h3: "length (possible_transitions_of ?ot 1 0 (3 / 2)) > 1" using p1 by simp
  from simulate_multiple_transitions_rejected[OF h1 h2 h3, of "[(''a'', 5)]" "[1]"] h1 p1
  show ?thesis by simp
qed

subsection \<open>The colour-zero constraint of the encoder\<close>

text \<open>
  Claim C6. If the positive samples of the encoder are a non-empty list,
  \<open>generate_color_zero_accepting_constraint\<close> asserts the variable \<open>accepting_0\<close> as a hard
  constraint and changes nothing else, so every model of the solver's assertions, whatever
  is asserted later, makes colour \<open>0\<close> accepting. If the positive samples are \<open>None\<close> or the
  empty list, the encoder is left as it was.
\<close>

theorem color_zero_accepting_constraint:
  "(\<forall>ps. positive_samples enc = Some ps \<and> ps \<noteq> [] \<longrightarrow>
      generate_color_zero_accepting_constraint enc
        = enc\<lparr>solver := solver enc @ [Var (accepting_var 0)],
              hard_constraints := hard_constraints enc @ [Var (accepting_var 0)]\<rparr> \<and>
      (\<forall>m later. is_model m (solver (generate_color_zero_accepting_constraint enc) @ later)
          \<longrightarrow> m (accepting_var 0))) \<and>
   (positive_samples enc = None \<or> positive_samples enc = Some [] \<longrightarrow>
      generate_color_zero_accepting_constraint enc = enc)"
  by (auto simp: generate_color_zero_accepting_constraint_def add_hard_constraint_def
        color_accepting_def is_model_def Let_def)

text \<open>
  The theorem at an encoder with one positive sample and an earlier assertion, with a model of
  the assertions, and at an encoder with an empty list of positive samples.
\<close>

theorem color_zero_accepting_constraint_witness:
  "solver (generate_color_zero_accepting_constraint
      \<lparr>positive_samples = Some [[(''a'', 1)]],
       solver = [Or [Var (node_color_var 0 0), Var (node_color_var 0 1)]],
       hard_constraints = []\<rparr>)
     = [Or [Var (node_color_var 0 0), Var (node_color_var 0 1)], Var (accepting_var 0)] \<and>
   is_model (\<lambda>v. True)
     (solver (generate_color_zero_accepting_constraint
        \<lparr>positive_samples = Some [[(''a'', 1)]],
         solver = [Or [Var (node_color_var 0 0), Var (node_color_var 0 1)]],
         hard_constraints = []\<rparr>) @ [Var (accepting_var 1)]) \<and>
   generate_color_zero_accepting_constraint
      \<lparr>positive_samples = Some [], solver = [], hard_constraints = []\<rparr>
     = \<lparr>positive_samples = Some [], solver = [], hard_constraints = []\<rparr>"
  using color_zero_accepting_constraint
      [of "\<lparr>positive_samples = Some [[(''a'', 1)]],
            solver = [Or [Var (node_color_var 0 0), Var (node_color_var 0 1)]],
            hard_constraints = []\<rparr>"]
    color_zero_accepting_constraint
      [of "\<lparr>positive_samples = Some [], solver = [], hard_constraints = []\<rparr>"]
  by (simp add: is_model_def)

subsection \<open>The time-to-region mapping of \<open>add_suffix\<close>\<close>

lemma float_0001_pos: "0 < float_round (1 / 1000)"
  by code_simp

lemma is_max_time_refl: "is_max_time t t"
  using float_0001_pos by (simp add: is_max_time_def float_round_def)

text \<open>
  The test at two pairs of floats where the rounding decides. The float nearest to
  \<open>1.001\<close> is less than \<open>0.001\<close> away from \<open>1\<close>, although \<open>1.001 - 1\<close> is not less than
  \<open>0.001\<close>. The float nearest to \<open>0.001\<close> and the float nearest to \<open>3e-20\<close> differ by less
  than \<open>0.001\<close>, but their difference is rounded to the float nearest to \<open>0.001\<close>.
\<close>

lemma add_suffix_region_float_literal:
  "is_float (float_round (1001 / 1000)) \<and>
   add_suffix_region 1 (float_round (1001 / 1000)) = mk_Region 1 PInf True False"
  by code_simp

lemma add_suffix_region_rounded_difference:
  "is_float (float_round (3 / 10 ^ 20)) \<and> is_float (float_round (1 / 1000)) \<and>
   \<bar>float_round (3 / 10 ^ 20) - float_round (1 / 1000)\<bar> < float_round (1 / 1000) \<and>
   add_suffix_region (float_round (3 / 10 ^ 20)) (float_round (1 / 1000))
     = mk_Region 0 (Fin 1) False False"
  by code_simp

text \<open>
  Claim C5, as amended. Let \<open>time\<close> and \<open>max_time\<close> be floats, \<open>time\<close> non-negative, and let
  \<open>is_max_time\<close> be the outcome of the test \<open>abs(time - max_time) < 0.001\<close> in float
  arithmetic, which holds in particular when \<open>time\<close> equals \<open>max_time\<close>. Then \<open>add_suffix\<close>
  maps an integer time with \<open>is_max_time\<close> to \<open>[t, inf)\<close>, any other integer time to \<open>[t, t]\<close>,
  a non-integer time with \<open>is_max_time\<close> to \<open>(floor t, inf)\<close>, and any other non-integer time
  to \<open>(floor t, floor t + 1)\<close>.
\<close>

theorem add_suffix_region_cases:
  assumes "0 \<le> time" and "is_float time" and "is_float max_time"
  shows "add_suffix_region time max_time =
     (if time \<in> \<int> then
        (if is_max_time time max_time then mk_Region time PInf True False
         else mk_Region time (Fin time) True True)
      else if is_max_time time max_time then mk_Region (of_int \<lfloor>time\<rfloor>) PInf False False
      else mk_Region (of_int \<lfloor>time\<rfloor>) (Fin (of_int \<lfloor>time\<rfloor> + 1)) False False) \<and>
     (time = max_time \<longrightarrow> is_max_time time max_time)"
proof (cases "time \<in> \<int>")
  case True
  then have "time = of_int \<lfloor>time\<rfloor>" by (simp add: is_integer_iff)
  with True assms(1) show ?thesis
    unfolding add_suffix_region_def by (simp add: py_int_nonneg Let_def is_max_time_refl)
next
  case False
  then have "time \<noteq> of_int \<lfloor>time\<rfloor>" by (simp add: is_integer_iff)
  with False assms(1) show ?thesis
    unfolding add_suffix_region_def by (simp add: py_int_nonneg Let_def is_max_time_refl)
qed

text \<open>The theorem at \<open>time = 2.5\<close> and \<open>max_time = 7\<close>.\<close>

theorem add_suffix_region_cases_witness:
  "(0::rat) \<le> 5 / 2 \<and> is_float (5 / 2) \<and> is_float 7 \<and> \<not> is_max_time (5 / 2) 7 \<and>
   add_suffix_region (5 / 2) 7 = mk_Region 2 (Fin 3) False False"
proof -
  have h: "(0::rat) \<le> 5 / 2" by simp
  have f1: "is_float (5 / 2)" by code_simp
  have f2: "is_float 7" by code_simp
  have m: "\<not> is_max_time (5 / 2) 7" by code_simp
  have n: "(5 / 2 :: rat) \<notin> \<int>"
  proof
    assume "(5 / 2 :: rat) \<in> \<int>"
    then obtain k :: int where "(5 / 2 :: rat) = of_int k" by (auto elim: Ints_cases)
    then have "(5 :: rat) = of_int (2 * k)" by simp
    then have "(5 :: int) = 2 * k" by (metis of_int_eq_iff of_int_numeral)
    then show False by presburger
  qed
  have f: "\<lfloor>5 / 2 :: rat\<rfloor> = 2" by (rule floor_unique) simp_all
  from add_suffix_region_cases[OF h f1 f2] n f m f1 f2 show ?thesis by simp
qed

text \<open>
  Claim C5 as stated fails: the integer time \<open>3\<close> differs from \<open>max_time = 3.0005\<close>, yet it
  is mapped to \<open>[3, inf)\<close> and not to the exact point \<open>[3, 3]\<close>, because the test for the
  maximum is a tolerance of \<open>0.001\<close> and not an equality.
\<close>

theorem add_suffix_region_tolerance_counterexample:
  "(3::rat) \<in> \<int> \<and> (3::rat) \<noteq> float_round (30005 / 10000) \<and>
   is_float 3 \<and> is_float (float_round (30005 / 10000)) \<and>
   add_suffix_region 3 (float_round (30005 / 10000)) = mk_Region 3 PInf True False \<and>
   add_suffix_region 3 (float_round (30005 / 10000)) \<noteq> mk_Region 3 (Fin 3) True True"
proof -
  have "(3::rat) \<noteq> float_round (30005 / 10000)" by code_simp
  moreover have "is_float 3" by code_simp
  moreover have "is_float (float_round (30005 / 10000))" by code_simp
  moreover have "add_suffix_region 3 (float_round (30005 / 10000)) = mk_Region 3 PInf True False"
    by code_simp
  moreover have "mk_Region 3 PInf True False \<noteq> mk_Region 3 (Fin 3) True True"
    by (simp add: mk_Region_def)
  ultimately show ?thesis by simp
qed

subsection \<open>Resolution of accept/reject conflicts\<close>

lemma resolve_conflict_accepting_iff:
  "(resolve_conflict_by_time_patterns py_sum pr nr = ''accepting'') =
     (pr \<noteq> [] \<and>
      (nr = [] \<or>
       (if second_times pr = [] \<or> second_times nr = [] then length nr \<le> length pr
        else float_less (float_mul_1_5 (average py_sum (second_times nr)))
               (average py_sum (second_times pr)))))"
  by (simp add: resolve_conflict_by_time_patterns_def Let_def)

text \<open>
  Claim C4, as amended. Let a node be in both the accepting and the rejecting set, and let
  \<open>positive_reaching\<close> and \<open>negative_reaching\<close> be the positive and negative samples that reach
  it. After the resolution the node is in exactly one of the two sets. It stays accepting
  exactly when some positive sample reaches it and either no negative sample does, or some
  side has no sample of length 2 and at least as many positive as negative samples reach the
  node, or both sides have a sample of length 2 and the average of the second timestamps of
  the positive samples of length 2 exceeds \<open>1.5\<close> times that of the negative ones, averages
  and product computed in floats.
\<close>

theorem conflict_resolution_cases:
  assumes "conflict_node \<in> accepting \<inter> rejecting"
    and "positive_reaching
           = filter (\<lambda>sample. sample_reaches_node min_3rta sample conflict_node) S_positive"
    and "negative_reaching
           = filter (\<lambda>sample. sample_reaches_node min_3rta sample conflict_node) S_negative"
    and "resolve_conflicts py_sum min_3rta S_positive S_negative (accepting, rejecting)
           = (accepting', rejecting')"
  shows "(conflict_node \<in> rejecting') = (conflict_node \<notin> accepting') \<and>
         (conflict_node \<in> accepting') =
           (positive_reaching \<noteq> [] \<and>
            (negative_reaching = [] \<or>
             (if second_times positive_reaching = [] \<or> second_times negative_reaching = []
              then length negative_reaching \<le> length positive_reaching
              else float_less
                     (float_mul_1_5 (average py_sum (second_times negative_reaching)))
                     (average py_sum (second_times positive_reaching)))))"
proof -
  let ?res = "resolve_conflict_by_time_patterns py_sum positive_reaching negative_reaching"
  from assms(2,3) have cr:
    "conflict_resolution py_sum min_3rta S_positive S_negative conflict_node = ?res"
    by (simp add: conflict_resolution_def)
  from assms(1,4) cr have a: "(conflict_node \<in> accepting') = (?res = ''accepting'')"
    and r: "(conflict_node \<in> rejecting') = (?res \<noteq> ''accepting'')"
    by (auto simp: resolve_conflicts_def Let_def)
  from a r show ?thesis unfolding resolve_conflict_accepting_iff by simp
qed

text \<open>
  The theorem at the automaton built from the positive sample \<open>(a, 5) (b, 1.75)\<close> and the
  negative sample \<open>(a, 5) (b, 1.125)\<close>, with the sum from the left: both samples reach node
  \<open>2\<close>, and \<open>1.75 > 1.5 * 1.125\<close>, so the node stays accepting.
\<close>

theorem conflict_resolution_cases_witness:
  "2 \<in> accepting_ids (build_from_samples new_Min3RTA
           [[(''a'', 5), (''b'', 7 / 4)]] [[(''a'', 5), (''b'', 9 / 8)]])
       \<inter> rejecting_ids (build_from_samples new_Min3RTA
           [[(''a'', 5), (''b'', 7 / 4)]] [[(''a'', 5), (''b'', 9 / 8)]]) \<and>
   2 \<in> fst (resolve_conflicts left_sum
              (build_from_samples new_Min3RTA
                 [[(''a'', 5), (''b'', 7 / 4)]] [[(''a'', 5), (''b'', 9 / 8)]])
              [[(''a'', 5), (''b'', 7 / 4)]] [[(''a'', 5), (''b'', 9 / 8)]]
              (accepting_ids (build_from_samples new_Min3RTA
                 [[(''a'', 5), (''b'', 7 / 4)]] [[(''a'', 5), (''b'', 9 / 8)]]),
               rejecting_ids (build_from_samples new_Min3RTA
                 [[(''a'', 5), (''b'', 7 / 4)]] [[(''a'', 5), (''b'', 9 / 8)]]))) \<and>
   2 \<notin> snd (resolve_conflicts left_sum
              (build_from_samples new_Min3RTA
                 [[(''a'', 5), (''b'', 7 / 4)]] [[(''a'', 5), (''b'', 9 / 8)]])
              [[(''a'', 5), (''b'', 7 / 4)]] [[(''a'', 5), (''b'', 9 / 8)]]
              (accepting_ids (build_from_samples new_Min3RTA
                 [[(''a'', 5), (''b'', 7 / 4)]] [[(''a'', 5), (''b'', 9 / 8)]]),
               rejecting_ids (build_from_samples new_Min3RTA
                 [[(''a'', 5), (''b'', 7 / 4)]] [[(''a'', 5), (''b'', 9 / 8)]])))"
proof -
  let ?pos = "[[(''a'', 5), (''b'', 7 / 4)]] :: trace list"
  let ?neg = "[[(''a'', 5), (''b'', 9 / 8)]] :: trace list"
  let ?m = "build_from_samples new_Min3RTA ?pos ?neg"
  let ?A = "fst (resolve_conflicts left_sum ?m ?pos ?neg (accepting_ids ?m, rejecting_ids ?m))"
  let ?R = "snd (resolve_conflicts left_sum ?m ?pos ?neg (accepting_ids ?m, rejecting_ids ?m))"
  have h: "2 \<in> accepting_ids ?m \<inter> rejecting_ids ?m" by code_simp
  have pr: "filter (\<lambda>sample. sample_reaches_node ?m sample 2) ?pos = ?pos" by code_simp
  have nr: "filter (\<lambda>sample. sample_reaches_node ?m sample 2) ?neg = ?neg" by code_simp
  have st: "second_times ?pos = [7 / 4]" "second_times ?neg = [9 / 8]"
    by (simp_all add: second_times_def)
  have fl: "float_less (float_mul_1_5 (average left_sum [9 / 8])) (average left_sum [7 / 4])"
    by code_simp
  have c: "(2 \<in> ?R) = (2 \<notin> ?A) \<and>
           (2 \<in> ?A) =
             (?pos \<noteq> [] \<and>
              (?neg = [] \<or>
               (if second_times ?pos = [] \<or> second_times ?neg = []
                then length ?neg \<le> length ?pos
                else float_less (float_mul_1_5 (average left_sum (second_times ?neg)))
                       (average left_sum (second_times ?pos)))))"
    by (rule conflict_resolution_cases[OF h pr[symmetric] nr[symmetric] surjective_pairing])
  from c have "2 \<in> ?A" unfolding st using fl by simp
  with c h show ?thesis by blast
qed

text \<open>
  Claim C4 as stated fails. The trace \<open>(a, 1)\<close>, given both as a positive and as a negative
  sample, makes node \<open>1\<close> accepting and rejecting. No reaching trace has length 2, so neither
  mean exists and the positive mean does not exceed one and a half times the negative one;
  yet the node is resolved to accepting, by the majority vote, which a tie gives to the
  positive side.
\<close>

theorem conflict_majority_vote_counterexample:
  "1 \<in> accepting_ids (build_from_samples new_Min3RTA [[(''a'', 1)]] [[(''a'', 1)]])
       \<inter> rejecting_ids (build_from_samples new_Min3RTA [[(''a'', 1)]] [[(''a'', 1)]]) \<and>
   filter (\<lambda>sample. sample_reaches_node
                      (build_from_samples new_Min3RTA [[(''a'', 1)]] [[(''a'', 1)]]) sample 1)
     [[(''a'', 1)]] = [[(''a'', 1)]] \<and>
   mean_of (second_times [[(''a'', 1)]]) = None \<and>
   conflict_resolution left_sum (build_from_samples new_Min3RTA [[(''a'', 1)]] [[(''a'', 1)]])
     [[(''a'', 1)]] [[(''a'', 1)]] 1 = ''accepting'' \<and>
   resolve_conflict_spec [[(''a'', 1)]] [[(''a'', 1)]] = ''rejecting''"
  by code_simp

subsection \<open>Register hits: redirection of transitions and rollback\<close>

lemma merge_inner_no_merge:
  "merge_inner rta target_node symbol region real_next_node ts = (False, rta)"
  by (induction ts) (auto simp: Let_def)

lemma merge_node_transitions_not_True:
  "py_not (fst (merge_node_transitions rta source_node target_node))"
  by (simp add: merge_node_transitions_def py_not_def)

lemma merge_outer_step_eq:
  "merge_outer_step target_node rta ((symbol, region), next_node) =
     (let real_next_node = get_real_node_id rta next_node;
          tn = nodes rta target_node;
          tn1 = tn\<lparr>transitions := AList.update (symbol, region) real_next_node (transitions tn)\<rparr>;
          tn2 = (if real_next_node \<notin> set (children tn1)
                 then tn1\<lparr>children := children tn1 @ [real_next_node]\<rparr> else tn1)
      in set_node rta target_node tn2)"
  by (simp add: merge_outer_step_def merge_inner_no_merge Let_def)

lemma merge_outer_step_register:
  "register (merge_outer_step target_node rta item) = register rta"
  by (cases item rule: prod.exhaust[where 'a = "string \<times> Region"]; cases "fst item")
     (auto simp: merge_outer_step_eq set_node_def Let_def)

lemma merge_outer_step_map_of:
  "map_of (transitions (nodes (merge_outer_step target_node rta ((symbol, region), next_node))
                          target_node))
     = (map_of (transitions (nodes rta target_node)))
         ((symbol, region) \<mapsto> get_real_node_id rta next_node)"
  by (auto simp: merge_outer_step_eq set_node_def Let_def update_conv')

lemma get_real_node_id_register:
  "register rta' = register rta \<Longrightarrow> get_real_node_id rta' = get_real_node_id rta"
  by (auto simp: get_real_node_id_def fun_eq_iff)

lemma merge_fold:
  "distinct (map fst items) \<Longrightarrow>
   register (foldl (merge_outer_step target_node) rta items) = register rta \<and>
   map_of (transitions (nodes (foldl (merge_outer_step target_node) rta items) target_node)) k
     = (case map_of items k of
          Some next_node \<Rightarrow> Some (get_real_node_id rta next_node)
        | None \<Rightarrow> map_of (transitions (nodes rta target_node)) k)"
proof (induction items arbitrary: rta)
  case Nil
  then show ?case by simp
next
  case (Cons item items)
  obtain symbol region next_node where item: "item = ((symbol, region), next_node)"
    by (metis prod.exhaust)
  let ?rta1 = "merge_outer_step target_node rta item"
  have reg: "register ?rta1 = register rta" by (rule merge_outer_step_register)
  from Cons.prems have d: "distinct (map fst items)" and nk: "(symbol, region) \<notin> fst ` set items"
    by (auto simp: item)
  from nk have none: "map_of items (symbol, region) = None"
    by (simp add: map_of_eq_None_iff)
  from Cons.IH[OF d, of ?rta1] reg
  have r: "register (foldl (merge_outer_step target_node) ?rta1 items) = register rta"
    and m: "map_of (transitions (nodes (foldl (merge_outer_step target_node) ?rta1 items)
                                   target_node)) k
            = (case map_of items k of
                 Some next_node \<Rightarrow> Some (get_real_node_id ?rta1 next_node)
               | None \<Rightarrow> map_of (transitions (nodes ?rta1 target_node)) k)"
    by simp_all
  have g: "get_real_node_id ?rta1 = get_real_node_id rta"
    by (rule get_real_node_id_register[OF reg])
  show ?case
  proof (cases "k = (symbol, region)")
    case True
    with m none item g r show ?thesis by (simp add: merge_outer_step_map_of)
  next
    case False
    with m item g r show ?thesis by (simp add: merge_outer_step_map_of split: option.splits)
  qed
qed

text \<open>
  Claim C3 at the positive samples \<open>(a, 1)\<close> and \<open>(b, 1)\<close>. Before the last
  \<open>replace_or_register\<close> on the root, the last child of the root is node \<open>2\<close>, the register
  holds node \<open>1\<close>, and node \<open>2\<close> is equivalent to node \<open>1\<close> with the same labels. The call
  nevertheless rolls the registration back: node \<open>2\<close> is not in the register afterwards, and
  both transitions of the root lead to node \<open>2\<close>. The automaton so reached is the one
  \<open>build_from_samples\<close> returns.
\<close>

theorem replace_or_register_rollback_with_equal_labels:
  "last_child (nodes (add (add (snd (create_node new_Min3RTA False False))
                             [(''a'', 1)] True 1) [(''b'', 1)] True 1) 0) = Some 2 \<and>
   find_registered (add (add (snd (create_node new_Min3RTA False False))
                           [(''a'', 1)] True 1) [(''b'', 1)] True 1) 2 [1] = Some 1 \<and>
   register (add (add (snd (create_node new_Min3RTA False False))
                    [(''a'', 1)] True 1) [(''b'', 1)] True 1) = [(1, 1)] \<and>
   is_accepting (nodes (add (add (snd (create_node new_Min3RTA False False))
                    [(''a'', 1)] True 1) [(''b'', 1)] True 1) 2)
     = is_accepting (nodes (add (add (snd (create_node new_Min3RTA False False))
                    [(''a'', 1)] True 1) [(''b'', 1)] True 1) 1) \<and>
   is_rejecting (nodes (add (add (snd (create_node new_Min3RTA False False))
                    [(''a'', 1)] True 1) [(''b'', 1)] True 1) 2)
     = is_rejecting (nodes (add (add (snd (create_node new_Min3RTA False False))
                    [(''a'', 1)] True 1) [(''b'', 1)] True 1) 1) \<and>
   map_of (register (replace_or_register
                       (add (add (snd (create_node new_Min3RTA False False))
                          [(''a'', 1)] True 1) [(''b'', 1)] True 1) 0 {} 0)) 2 = None \<and>
   transitions (nodes (replace_or_register
                       (add (add (snd (create_node new_Min3RTA False False))
                          [(''a'', 1)] True 1) [(''b'', 1)] True 1) 0 {} 0) 0)
     = [((''a'', mk_Region 1 PInf True False), 2), ((''b'', mk_Region 1 PInf True False), 2)] \<and>
   register (build_from_samples new_Min3RTA [[(''a'', 1)], [(''b'', 1)]] []) = [(1, 1)] \<and>
   transitions (nodes (build_from_samples new_Min3RTA [[(''a'', 1)], [(''b'', 1)]] []) 0)
     = [((''a'', mk_Region 1 PInf True False), 2), ((''b'', mk_Region 1 PInf True False), 2)]"
  by code_simp

end
